theory Spec2Isabelle
  imports Complex_Main
begin

section \<open>The UiAutomator2 driver: session lifecycle, port allocation, route matching\<close>

text \<open>
  A shallow embedding of \<^verbatim>\<open>src/lib/driver.ts\<close> (class \<^verbatim>\<open>AndroidUiautomator2Driver\<close>).
  The mutable fields of the driver object are a record that every operation takes and
  returns; a rejected promise or a thrown exception is the \<open>Inl\<close> branch of the
  result. Everything the driver calls but does not define (the device bridge, the
  on-device server object, helper packages, the base driver, the port scanner, the lock
  file guard) is an external call: it is appended to the trace of the state and its
  outcome is read from an environment, which may let any call fail at any time.
\<close>

subsection \<open>Route rules (\<^verbatim>\<open>RouteMatcher = [method, RegExp]\<close>)\<close>

text \<open>
  The regular expressions of the two tables use a small fragment of the JavaScript syntax:
  all of them start with \<^verbatim>\<open>^\<close> and are sequences of literal text,
  \<^verbatim>\<open>[^/]+\<close> (\<open>Seg\<close>), \<^verbatim>\<open>[^/]\<close> (\<open>NonSlash\<close>),
  \<^verbatim>\<open>.*\<close> (\<open>AnyStar\<close>), a negative lookahead \<^verbatim>\<open>(?!...)\<close>
  (\<open>NotAhead\<close>) and \<^verbatim>\<open>$\<close> (\<open>Eol\<close>). A pattern is the list of these
  atoms after the leading \<^verbatim>\<open>^\<close>.
\<close>

datatype atom =
    Lit string
  | Seg
  | NonSlash
  | AnyStar
  | NotAhead "atom list"
  | Eol

type_synonym regExp = "atom list"

type_synonym routeMatcher = "string \<times> regExp"

text \<open>The dot of a JavaScript regular expression matches every character but a line terminator.\<close>

definition isDot :: "char \<Rightarrow> bool" where
  "isDot c \<longleftrightarrow> c \<noteq> CHR 0x0A \<and> c \<noteq> CHR 0x0D"

text \<open>
  \<open>matchesAt p s\<close>: the pattern \<open>p\<close> matches a prefix of \<open>s\<close>. Since every pattern is
  anchored by \<^verbatim>\<open>^\<close> (and no flag is given), \<^verbatim>\<open>RegExp.test\<close> is a match at
  position 0.
\<close>

function matchesAt :: "atom list \<Rightarrow> string \<Rightarrow> bool" where
  "matchesAt [] s = True"
| "matchesAt (Lit l # r) s = (take (length l) s = l \<and> matchesAt r (drop (length l) s))"
| "matchesAt (Seg # r) [] = False"
| "matchesAt (Seg # r) (c # cs) =
     (c \<noteq> CHR ''/'' \<and> (matchesAt (Seg # r) cs \<or> matchesAt r cs))"
| "matchesAt (NonSlash # r) [] = False"
| "matchesAt (NonSlash # r) (c # cs) = (c \<noteq> CHR ''/'' \<and> matchesAt r cs)"
| "matchesAt (AnyStar # r) [] = matchesAt r []"
| "matchesAt (AnyStar # r) (c # cs) =
     ((isDot c \<and> matchesAt (AnyStar # r) cs) \<or> matchesAt r (c # cs))"
| "matchesAt (NotAhead p # r) s = (\<not> matchesAt p s \<and> matchesAt r s)"
| "matchesAt (Eol # r) s = (s = [] \<and> matchesAt r s)"
  by pat_completeness auto
termination
  by (relation "measures [\<lambda>(p, s). size_list size p, \<lambda>(p, s). length s]") auto

definition test :: "regExp \<Rightarrow> string \<Rightarrow> bool" where
  "test re path = matchesAt re path"

definition NO_PROXY :: "routeMatcher list" where
  "NO_PROXY = [
     (''DELETE'', [Lit ''/session/'', Seg, Lit ''/actions'']),
     (''GET'', [Lit ''/session/'', NotAhead [AnyStar, Lit ''/'']]),
     (''GET'', [Lit ''/session/'', Seg, Lit ''/alert_'', Seg]),
     (''GET'', [Lit ''/session/'', Seg, Lit ''/alert/'', Seg]),
     (''GET'', [Lit ''/session/'', Seg, Lit ''/appium/'', Seg, Lit ''/current_activity'']),
     (''GET'', [Lit ''/session/'', Seg, Lit ''/appium/'', Seg, Lit ''/current_package'']),
     (''GET'', [Lit ''/session/'', Seg, Lit ''/appium/app/'', Seg]),
     (''GET'', [Lit ''/session/'', Seg, Lit ''/appium/device/'', Seg]),
     (''GET'', [Lit ''/session/'', Seg, Lit ''/appium/settings'']),
     (''GET'', [Lit ''/session/'', Seg, Lit ''/context'']),
     (''GET'', [Lit ''/session/'', Seg, Lit ''/contexts'']),
     (''GET'', [Lit ''/session/'', Seg, Lit ''/element/'', Seg, Lit ''/attribute'']),
     (''GET'', [Lit ''/session/'', Seg, Lit ''/element/'', Seg, Lit ''/displayed'']),
     (''GET'', [Lit ''/session/'', Seg, Lit ''/element/'', Seg, Lit ''/enabled'']),
     (''GET'', [Lit ''/session/'', Seg, Lit ''/element/'', Seg, Lit ''/location_in_view'']),
     (''GET'', [Lit ''/session/'', Seg, Lit ''/element/'', Seg, Lit ''/name'']),
     (''GET'', [Lit ''/session/'', Seg, Lit ''/element/'', Seg, Lit ''/screenshot'']),
     (''GET'', [Lit ''/session/'', Seg, Lit ''/element/'', Seg, Lit ''/selected'']),
     (''GET'', [Lit ''/session/'', Seg, Lit ''/ime/'', Seg]),
     (''GET'', [Lit ''/session/'', Seg, Lit ''/location'']),
     (''GET'', [Lit ''/session/'', Seg, Lit ''/network_connection'']),
     (''GET'', [Lit ''/session/'', Seg, Lit ''/screenshot'']),
     (''GET'', [Lit ''/session/'', Seg, Lit ''/timeouts'']),
     (''GET'', [Lit ''/session/'', Seg, Lit ''/url'']),
     (''POST'', [Lit ''/session/'', Seg, Lit ''/'', Seg, Lit ''_alert'', Eol]),
     (''POST'', [Lit ''/session/'', Seg, Lit ''/actions'']),
     (''POST'', [Lit ''/session/'', Seg, Lit ''/alert/'', Seg]),
     (''POST'', [Lit ''/session/'', Seg, Lit ''/app/'', NonSlash]),
     (''POST'', [Lit ''/session/'', Seg, Lit ''/appium/'', Seg, Lit ''/start_activity'']),
     (''POST'', [Lit ''/session/'', Seg, Lit ''/appium/app/'', Seg]),
     (''POST'', [Lit ''/session/'', Seg, Lit ''/appium/compare_images'']),
     (''POST'', [Lit ''/session/'', Seg, Lit ''/appium/device/'', NotAhead [Lit ''set_clipboard''], Seg]),
     (''POST'', [Lit ''/session/'', Seg, Lit ''/appium/element/'', Seg, Lit ''/replace_value'']),
     (''POST'', [Lit ''/session/'', Seg, Lit ''/appium/element/'', Seg, Lit ''/value'']),
     (''POST'', [Lit ''/session/'', Seg, Lit ''/appium/getPerformanceData'']),
     (''POST'', [Lit ''/session/'', Seg, Lit ''/appium/performanceData/types'']),
     (''POST'', [Lit ''/session/'', Seg, Lit ''/appium/settings'']),
     (''POST'', [Lit ''/session/'', Seg, Lit ''/appium/execute_driver'']),
     (''POST'', [Lit ''/session/'', Seg, Lit ''/appium/start_recording_screen'']),
     (''POST'', [Lit ''/session/'', Seg, Lit ''/appium/stop_recording_screen'']),
     (''POST'', [Lit ''/session/'', Seg, Lit ''/appium/'', AnyStar, Lit ''event'']),
     (''POST'', [Lit ''/session/'', Seg, Lit ''/context'']),
     (''POST'', [Lit ''/session/'', Seg, Lit ''/element'']),
     (''POST'', [Lit ''/session/'', Seg, Lit ''/ime/'', Seg]),
     (''POST'', [Lit ''/session/'', Seg, Lit ''/keys'']),
     (''POST'', [Lit ''/session/'', Seg, Lit ''/location'']),
     (''POST'', [Lit ''/session/'', Seg, Lit ''/network_connection'']),
     (''POST'', [Lit ''/session/'', Seg, Lit ''/timeouts'']),
     (''POST'', [Lit ''/session/'', Seg, Lit ''/touch/multi/perform'']),
     (''POST'', [Lit ''/session/'', Seg, Lit ''/touch/perform'']),
     (''POST'', [Lit ''/session/'', Seg, Lit ''/url'']),
     (''GET'', [Lit ''/session/'', Seg, Lit ''/log/types'']),
     (''POST'', [Lit ''/session/'', Seg, Lit ''/execute'']),
     (''POST'', [Lit ''/session/'', Seg, Lit ''/execute_async'']),
     (''POST'', [Lit ''/session/'', Seg, Lit ''/log'']),
     (''GET'', [Lit ''/session/'', Seg, Lit ''/se/log/types'']),
     (''GET'', [Lit ''/session/'', Seg, Lit ''/window/rect'']),
     (''POST'', [Lit ''/session/'', Seg, Lit ''/execute/async'']),
     (''POST'', [Lit ''/session/'', Seg, Lit ''/execute/sync'']),
     (''POST'', [Lit ''/session/'', Seg, Lit ''/se/log''])
   ]"

definition CHROME_NO_PROXY :: "routeMatcher list" where
  "CHROME_NO_PROXY = [
     (''GET'', [Lit ''/session/'', Seg, Lit ''/appium'']),
     (''GET'', [Lit ''/session/'', Seg, Lit ''/context'']),
     (''GET'', [Lit ''/session/'', Seg, Lit ''/element/'', Seg, Lit ''/rect'']),
     (''GET'', [Lit ''/session/'', Seg, Lit ''/orientation'']),
     (''POST'', [Lit ''/session/'', Seg, Lit ''/appium'']),
     (''POST'', [Lit ''/session/'', Seg, Lit ''/context'']),
     (''POST'', [Lit ''/session/'', Seg, Lit ''/orientation'']),
     (''POST'', [Lit ''/session/'', Seg, Lit ''/touch/multi/perform'']),
     (''POST'', [Lit ''/session/'', Seg, Lit ''/touch/perform'']),
     (''POST'', [Lit ''/session/'', Seg, Lit ''/execute'', Eol]),
     (''POST'', [Lit ''/session/'', Seg, Lit ''/execute/sync'']),
     (''GET'', [Lit ''/session/'', Seg, Lit ''/log/types'', Eol]),
     (''POST'', [Lit ''/session/'', Seg, Lit ''/log'', Eol]),
     (''GET'', [Lit ''/session/'', Seg, Lit ''/se/log/types'', Eol]),
     (''POST'', [Lit ''/session/'', Seg, Lit ''/se/log'', Eol])
   ]"

text \<open>The extra rule of \<^verbatim>\<open>getProxyAvoidList\<close> (line 904).\<close>

definition SCREENSHOT_RULE :: routeMatcher where
  "SCREENSHOT_RULE = (''GET'', [Lit ''/session/'', Seg, Lit ''/screenshot''])"

subsection \<open>External calls, errors and the environment\<close>

text \<open>
  The operations the driver invokes on its collaborators, grouped by the object they are
  invoked on: \<open>Adb\<close> is a method of \<^verbatim>\<open>this.adb\<close> (the device bridge),
  \<open>Helper\<close> a function of \<^verbatim>\<open>helpers\<close> / \<^verbatim>\<open>androidHelpers\<close> /
  \<^verbatim>\<open>this.helpers\<close>, \<open>Server\<close> a method of the \<^verbatim>\<open>UiAutomator2Server\<close> object,
  \<open>Driver\<close> a method the driver class inherits or mixes in from outside this file, and
  \<open>Host\<close> an operation on the host machine (file system, local ports, lock file, MJPEG
  reader).
\<close>

datatype adbCall =
    GetApiLevel
  | SetHiddenApiPolicy
  | ToggleGPSLocationProvider bool
  | ForwardPort nat nat
  | RemovePortForward nat
  | AddToDeviceIdleWhitelist
  | IsAnimationOn
  | SetAnimationState bool
  | IsAppInstalled
  | CheckApkCert
  | UninstallApk
  | AndroidCoverage
  | ProcessExists
  | StartApp
  | EndAndroidCoverage
  | Broadcast
  | ForceStop
  | StopLogcat
  | SetDefaultHiddenApiPolicy
  | KillEmulator

datatype helperCall =
    GetChromePkg
  | ConfigureApp
  | GetDeviceInfoFromCaps
  | CreateADB
  | GetLaunchInfo
  | InitDevice
  | ParseArray
  | UninstallOtherPackages
  | ConfigureOtherApps
  | InstallOtherApks
  | SignApp
  | InstallApk
  | ResetApp
  | Unlock
  | RemoveAllSessionWebSocketHandlers

datatype serverCall =
    NewServer
  | InstallServerApk
  | StartSession
  | DeleteSession

datatype driverCall =
    BaseCreateSession
  | BaseDeleteSession
  | MobileGetDeviceInfo
  | StartChromeSession
  | SetOrientation
  | SetContext
  | GetDevicePixelRatio
  | GetStatusBarHeight
  | GetViewPortRect
  | StopChromedriverProxies
  | StopRecordingScreen
  | MobileIsMediaProjectionRecordingRunning
  | MobileStopMediaProjectionRecording
  | MobileStopScreenStreaming

datatype hostCall =
    FsExists
  | CheckPortStatus nat
  | FindAPortNotInUse nat nat
  | AcquireGuard
  | ReleaseGuard
  | MjpegStreamStart
  | MjpegStreamStop

datatype call =
    Adb adbCall
  | Helper helperCall
  | Server serverCall
  | Driver driverCall
  | Host hostCall

text \<open>
  \<open>External c\<close> is the rejection of the collaborator call \<open>c\<close>; the other constructors
  are the errors the driver raises itself (\<^verbatim>\<open>log.errorAndThrow\<close>), and \<open>AvdUndefined\<close>
  is the \<^verbatim>\<open>TypeError\<close> of \<^verbatim>\<open>this.opts.avd!.replace\<close> (line 851) on an undefined
  \<^verbatim>\<open>avd\<close>.
\<close>

datatype error =
    External call
  | LocalPortBusy nat
  | NoFreePort nat nat
  | UnsupportedApiLevel
  | DeviceNameRequired
  | PlatformVersionRequired
  | AppNotFound
  | OtherAppsUnparsable
  | FullResetRequiresApp
  | AvdUndefined

text \<open>
  The environment: \<open>fails E n c\<close> says that the call \<open>c\<close>, made when \<open>n\<close> external calls
  have been made before it, is rejected; the other fields are what the queries answer.
\<close>

record env =
  fails :: "nat \<Rightarrow> call \<Rightarrow> bool"
  portOpen :: "nat \<Rightarrow> bool"
  apiLevel :: nat
  isEmulator :: bool
  newSessionId :: string
  chromePkg :: "string \<times> string"
  configuredApp :: string
  appExists :: bool
  launchInfo :: "(string \<times> string) option"
  animationOn :: bool
  appInstalled :: bool
  apkCertOk :: bool
  processRunning :: bool
  mediaProjectionRunning :: bool

subsection \<open>The driver object\<close>

text \<open>
  The capabilities and options the code of this file branches on (\<^verbatim>\<open>this.opts\<close> and
  \<^verbatim>\<open>this.caps\<close>, which the base driver fills from the same capability bundle). An
  optional string or number is an \<open>option\<close>, read with JavaScript's truthiness; an optional
  flag that is only tested for truth is a \<open>bool\<close> (\<^verbatim>\<open>undefined\<close> is \<open>False\<close>).
  Values that are only handed on to a collaborator (udid, adbPort, timeouts of installs,
  intent arguments, the result capabilities) are left out.
\<close>

record opts =
  app :: "string option"
  appPackage :: "string option"
  appActivity :: "string option"
  deviceName :: "string option"
  platformVersion :: "string option"
  avd :: "string option"
  reboot :: bool
  fullReset :: bool
  fastReset :: bool
  noReset :: bool
  noSign :: bool
  skipUninstall :: bool
  skipUnlock :: bool
  skipServerInstallation :: bool
  autoLaunch :: "bool option"
  forceAppLaunch :: bool
  dontStopAppOnReset :: bool
  shouldTerminateApp :: bool
  gpsEnabled :: "bool option"
  disableWindowAnimation :: bool
  uninstallOtherPackages :: "string option"
  otherApps :: "string option"
  orientation :: "string option"
  autoWebview :: bool
  autoWebviewTimeout :: "nat option"
  mjpegServerPort :: "nat option"
  mjpegScreenshotUrl :: "string option"
  nativeWebScreenshot :: bool
  androidCoverage :: "string option"
  androidCoverageEndIntent :: "string option"

text \<open>
  The fields of \<^verbatim>\<open>this\<close>, and with them the two things the claims observe outside
  the object: the trace of external calls and the local ports the device bridge forwards
  (\<open>forwards s l = Some d\<close>: local port \<open>l\<close> is forwarded to device port \<open>d\<close>).
  \<open>isChromeSession\<close> is a getter of the parent class; \<open>screenRecording\<close> and
  \<open>screenStreaming\<close> say that \<^verbatim>\<open>_screenRecordingProperties\<close> and
  \<^verbatim>\<open>_screenStreamingProps\<close> are not empty.
\<close>

record driver =
  opts :: opts
  sessionId :: "string option"
  isChromeSession :: bool
  uiautomator2 :: bool
  adb :: bool
  systemPort :: "nat option"
  hasSystemPortInCaps :: bool
  mjpegStream :: bool
  jwpProxyActive :: bool
  jwpProxyAvoid :: "routeMatcher list"
  chromedriver :: "nat option"
  wasWindowAnimationDisabled :: bool
  screenRecording :: bool
  screenStreaming :: bool
  warnings :: "string list"
  trace :: "call list"
  forwards :: "nat \<rightharpoonup> nat"

subsection \<open>Actions: state passing with exceptions\<close>

type_synonym 'a action = "driver \<Rightarrow> (error + 'a) \<times> driver"

definition ok :: "'a \<Rightarrow> 'a action" where
  "ok a = (\<lambda>s. (Inr a, s))"

definition throw :: "error \<Rightarrow> 'a action" where
  "throw e = (\<lambda>s. (Inl e, s))"

definition bindA :: "'a action \<Rightarrow> ('a \<Rightarrow> 'b action) \<Rightarrow> 'b action" where
  "bindA m f = (\<lambda>s. case m s of (Inl e, s') \<Rightarrow> (Inl e, s') | (Inr a, s') \<Rightarrow> f a s')"

definition thenA :: "unit action \<Rightarrow> 'a action \<Rightarrow> 'a action" where
  "thenA m n = bindA m (\<lambda>_. n)"

fun seqA :: "unit action list \<Rightarrow> unit action" where
  "seqA [] = ok ()"
| "seqA (m # ms) = thenA m (seqA ms)"

text \<open>\<^verbatim>\<open>try { m } catch (e) { h(e) }\<close> and \<^verbatim>\<open>try { m } finally { f }\<close>.\<close>

definition tryCatch :: "'a action \<Rightarrow> (error \<Rightarrow> 'a action) \<Rightarrow> 'a action" where
  "tryCatch m h = (\<lambda>s. case m s of (Inl e, s') \<Rightarrow> h e s' | (Inr a, s') \<Rightarrow> (Inr a, s'))"

definition tryFinally :: "'a action \<Rightarrow> unit action \<Rightarrow> 'a action" where
  "tryFinally m f =
     (\<lambda>s. case m s of (r, s') \<Rightarrow>
        (case f s' of (Inl e, s'') \<Rightarrow> (Inl e, s'') | (Inr _, s'') \<Rightarrow> (r, s'')))"

definition modify :: "(driver \<Rightarrow> driver) \<Rightarrow> unit action" where
  "modify f = (\<lambda>s. (Inr (), f s))"

definition withS :: "(driver \<Rightarrow> 'b) \<Rightarrow> ('b \<Rightarrow> 'a action) \<Rightarrow> 'a action" where
  "withS g k = (\<lambda>s. k (g s) s)"

definition ifS :: "(driver \<Rightarrow> bool) \<Rightarrow> 'a action \<Rightarrow> 'a action \<Rightarrow> 'a action" where
  "ifS c m n = (\<lambda>s. if c s then m s else n s)"

definition whenS :: "(driver \<Rightarrow> bool) \<Rightarrow> unit action \<Rightarrow> unit action" where
  "whenS c m = ifS c m (ok ())"

definition whenA :: "bool \<Rightarrow> unit action \<Rightarrow> unit action" where
  "whenA b m = (if b then m else ok ())"

text \<open>\<^verbatim>\<open>this.log.warn\<close>; the debug and info lines of the log are not modelled.\<close>

definition warn :: "string \<Rightarrow> unit action" where
  "warn msg = modify (\<lambda>s. s\<lparr>warnings := warnings s @ [msg]\<rparr>)"

text \<open>
  An external call: it is recorded, and it is rejected when the environment says so.
  \<open>extV\<close> is a call that answers a value; \<open>observe\<close> is a query of the host that does
  not reject.
\<close>

definition record_call :: "call \<Rightarrow> unit action" where
  "record_call c = modify (\<lambda>s. s\<lparr>trace := trace s @ [c]\<rparr>)"

definition ext :: "env \<Rightarrow> call \<Rightarrow> unit action" where
  "ext E c =
     (\<lambda>s. if fails E (length (trace s)) c
          then (Inl (External c), s\<lparr>trace := trace s @ [c]\<rparr>)
          else (Inr (), s\<lparr>trace := trace s @ [c]\<rparr>))"

definition extV :: "env \<Rightarrow> call \<Rightarrow> 'a \<Rightarrow> 'a action" where
  "extV E c v = bindA (ext E c) (\<lambda>_. ok v)"

definition observe :: "call \<Rightarrow> 'a \<Rightarrow> 'a action" where
  "observe c v = bindA (record_call c) (\<lambda>_. ok v)"

text \<open>JavaScript truthiness of an optional string and of an optional number.\<close>

definition truthyS :: "string option \<Rightarrow> bool" where
  "truthyS x = (case x of None \<Rightarrow> False | Some v \<Rightarrow> v \<noteq> [])"

definition truthyN :: "nat option \<Rightarrow> bool" where
  "truthyN x = (case x of None \<Rightarrow> False | Some n \<Rightarrow> n \<noteq> 0)"

definition numberOf :: "nat option \<Rightarrow> nat" where
  "numberOf x = (case x of None \<Rightarrow> 0 | Some n \<Rightarrow> n)"

text \<open>\<^verbatim>\<open>util.hasValue\<close>: neither undefined nor null.\<close>

definition hasValue :: "'a option \<Rightarrow> bool" where
  "hasValue x = (x \<noteq> None)"

subsection \<open>Port allocation (lines 43--62 and 361--427)\<close>

definition DEVICE_PORT_RANGE :: "nat \<times> nat" where
  "DEVICE_PORT_RANGE = (8200, 8299)"

definition DEVICE_PORT :: nat where
  "DEVICE_PORT = 6790"

definition MJPEG_SERVER_DEVICE_PORT :: nat where
  "MJPEG_SERVER_DEVICE_PORT = 7810"

text \<open>
  \<^verbatim>\<open>DEVICE_PORT_ALLOCATION_GUARD\<close>, the lock file guard of \<^verbatim>\<open>appium/support\<close>:
  the lock is taken (which may fail, after its timeout), the body runs, and the lock is
  given back whether the body threw or not.
\<close>

definition DEVICE_PORT_ALLOCATION_GUARD :: "env \<Rightarrow> 'a action \<Rightarrow> 'a action" where
  "DEVICE_PORT_ALLOCATION_GUARD E body =
     bindA (ext E (Host AcquireGuard)) (\<lambda>_. tryFinally body (ext E (Host ReleaseGuard)))"

text \<open>
  The two port primitives of the device bridge with their effect on the forwards of the
  host: \<^verbatim>\<open>adb forward\<close> binds the local port, \<^verbatim>\<open>adb forward --remove\<close>
  unbinds it; a rejected call changes nothing.
\<close>

definition adbForwardPort :: "env \<Rightarrow> nat \<Rightarrow> nat \<Rightarrow> unit action" where
  "adbForwardPort E l d =
     thenA (ext E (Adb (ForwardPort l d))) (modify (\<lambda>s. s\<lparr>forwards := (forwards s)(l \<mapsto> d)\<rparr>))"

definition adbRemovePortForward :: "env \<Rightarrow> nat \<Rightarrow> unit action" where
  "adbRemovePortForward E l =
     thenA (ext E (Adb (RemovePortForward l))) (modify (\<lambda>s. s\<lparr>forwards := (forwards s)(l := None)\<rparr>))"

text \<open>
  \<^verbatim>\<open>checkPortStatus(port, host) === 'open'\<close> of the \<^verbatim>\<open>portscanner\<close> package.
\<close>

definition checkPortStatus :: "env \<Rightarrow> nat \<Rightarrow> bool action" where
  "checkPortStatus E p = observe (Host (CheckPortStatus p)) (portOpen E p)"

text \<open>
  Modelled from the spec: \<^verbatim>\<open>findAPortNotInUse\<close> of the \<^verbatim>\<open>portscanner\<close> package is
  not under \<^verbatim>\<open>src/\<close>. It scans the range in ascending order for the first port with
  nothing locally listening and rejects when the range has none (the driver catches
  that rejection, line 386).
\<close>

definition findAPortNotInUse :: "env \<Rightarrow> nat \<Rightarrow> nat \<Rightarrow> nat action" where
  "findAPortNotInUse E startPort endPort =
     bindA (record_call (Host (FindAPortNotInUse startPort endPort)))
       (\<lambda>_. case find (\<lambda>p. \<not> portOpen E p) [startPort..<Suc endPort] of
               Some p \<Rightarrow> ok p
             | None \<Rightarrow> throw (External (Host (FindAPortNotInUse startPort endPort))))"

text \<open>The local function \<^verbatim>\<open>forwardPort\<close> of \<^verbatim>\<open>allocateSystemPort\<close> (lines 362--375).\<close>

definition forwardPort :: "env \<Rightarrow> nat \<Rightarrow> unit action" where
  "forwardPort E localPort =
     bindA (checkPortStatus E localPort)
       (\<lambda>isOpen. thenA (whenA isOpen (throw (LocalPortBusy localPort)))
                    (adbForwardPort E localPort DEVICE_PORT))"

definition allocateSystemPort :: "env \<Rightarrow> unit action" where
  "allocateSystemPort E =
     ifS (\<lambda>s. truthyN (systemPort s))
       (thenA (modify (\<lambda>s. s\<lparr>hasSystemPortInCaps := True\<rparr>))
          (withS systemPort (\<lambda>p. forwardPort E (numberOf p))))
       (DEVICE_PORT_ALLOCATION_GUARD E
          (case DEVICE_PORT_RANGE of (startPort, endPort) \<Rightarrow>
             thenA
               (tryCatch
                  (bindA (findAPortNotInUse E startPort endPort)
                     (\<lambda>p. modify (\<lambda>s. s\<lparr>systemPort := Some p\<rparr>)))
                  (\<lambda>e. throw (NoFreePort startPort endPort)))
               (withS systemPort (\<lambda>p. forwardPort E (numberOf p)))))"

definition releaseSystemPort :: "env \<Rightarrow> unit action" where
  "releaseSystemPort E =
     ifS (\<lambda>s. \<not> truthyN (systemPort s) \<or> \<not> adb s)
       (ok ())
       (ifS hasSystemPortInCaps
          (withS systemPort (\<lambda>p. adbRemovePortForward E (numberOf p)))
          (DEVICE_PORT_ALLOCATION_GUARD E
             (withS systemPort (\<lambda>p. adbRemovePortForward E (numberOf p)))))"

definition allocateMjpegServerPort :: "env \<Rightarrow> unit action" where
  "allocateMjpegServerPort E =
     whenS (\<lambda>s. truthyN (mjpegServerPort (opts s)))
       (withS (\<lambda>s. mjpegServerPort (opts s))
          (\<lambda>p. adbForwardPort E (numberOf p) MJPEG_SERVER_DEVICE_PORT))"

definition releaseMjpegServerPort :: "env \<Rightarrow> unit action" where
  "releaseMjpegServerPort E =
     whenS (\<lambda>s. truthyN (mjpegServerPort (opts s)))
       (withS (\<lambda>s. mjpegServerPort (opts s)) (\<lambda>p. adbRemovePortForward E (numberOf p)))"






subsection \<open>Provisioning (lines 236--317 and 429--731)\<close>

definition adbGetApiLevel :: "env \<Rightarrow> nat action" where
  "adbGetApiLevel E = extV E (Adb GetApiLevel) (apiLevel E)"

definition isAvdNameChar :: "char \<Rightarrow> bool" where
  "isAvdNameChar c \<longleftrightarrow>
     (let n = (of_char c :: nat) in
        (97 \<le> n \<and> n \<le> 122) \<or> (65 \<le> n \<and> n \<le> 90) \<or> (48 \<le> n \<and> n \<le> 57)
        \<or> c = CHR ''_'' \<or> c = CHR ''.'')"

definition setAvdFromCapabilities :: "unit action" where
  "setAvdFromCapabilities =
     ifS (\<lambda>s. truthyS (avd (opts s)))
       (ok ())
       (ifS (\<lambda>s. \<not> truthyS (deviceName (opts s)))
          (throw DeviceNameRequired)
          (ifS (\<lambda>s. \<not> truthyS (platformVersion (opts s)))
             (throw PlatformVersionRequired)
             (modify (\<lambda>s. s\<lparr>opts := (opts s)\<lparr>avd :=
                Some (map (\<lambda>c. if isAvdNameChar c then c else CHR ''-'')
                        (case deviceName (opts s) of Some d \<Rightarrow> d | None \<Rightarrow> [])
                      @ ''__''
                      @ (case platformVersion (opts s) of Some v \<Rightarrow> v | None \<Rightarrow> []))\<rparr>\<rparr>))))"

definition checkAppPresent :: "env \<Rightarrow> unit action" where
  "checkAppPresent E =
     bindA (extV E (Host FsExists) (appExists E))
       (\<lambda>present. whenA (\<not> present) (throw AppNotFound))"

definition initUiAutomator2Server :: "env \<Rightarrow> unit action" where
  "initUiAutomator2Server E =
     seqA [
       ext E (Server NewServer),
       modify (\<lambda>s. s\<lparr>uiautomator2 := True\<rparr>),
       ifS (\<lambda>s. skipServerInstallation (opts s))
         (ok ())
         (seqA [
            ext E (Server InstallServerApk),
            tryCatch (ext E (Adb AddToDeviceIdleWhitelist))
              (\<lambda>e. warn ''Cannot add server packages to the Doze whitelist'')])
     ]"

definition initAUT :: "env \<Rightarrow> unit action" where
  "initAUT E =
     seqA [
       whenS (\<lambda>s. truthyS (uninstallOtherPackages (opts s)))
         (seqA [ext E (Helper ParseArray), ext E (Helper UninstallOtherPackages)]),
       whenS (\<lambda>s. truthyS (otherApps (opts s)))
         (seqA [
            tryCatch (ext E (Helper ParseArray)) (\<lambda>e. throw OtherAppsUnparsable),
            ext E (Helper ConfigureOtherApps),
            ext E (Helper InstallOtherApks)]),
       ifS (\<lambda>s. truthyS (app (opts s)))
         (bindA
            (ifS (\<lambda>s. noReset (opts s))
               (bindA (extV E (Adb IsAppInstalled) (appInstalled E)) (\<lambda>i. ok (\<not> i)))
               (ok True))
            (\<lambda>install.
               if install then
                 seqA [
                   ifS (\<lambda>s. \<not> noSign (opts s))
                     (bindA (extV E (Adb CheckApkCert) (apkCertOk E))
                        (\<lambda>certOk. whenA (\<not> certOk) (ext E (Helper SignApp))))
                     (ok ()),
                   whenS (\<lambda>s. \<not> skipUninstall (opts s)) (ext E (Adb UninstallApk)),
                   ext E (Helper InstallApk)]
               else ok ()))
         (seqA [
            whenS (\<lambda>s. fullReset (opts s)) (throw FullResetRequiresApp),
            whenS (\<lambda>s. fastReset (opts s) \<and> truthyS (appPackage (opts s)))
              (ext E (Helper ResetApp))])
     ]"

definition ensureAppStarts :: "env \<Rightarrow> unit action" where
  "ensureAppStarts E =
     ifS (\<lambda>s. truthyS (androidCoverage (opts s)))
       (ext E (Adb AndroidCoverage))
       (ifS (\<lambda>s. noReset (opts s) \<and> \<not> forceAppLaunch (opts s))
          (bindA (extV E (Adb ProcessExists) (processRunning E))
             (\<lambda>running. if running then ok () else ext E (Adb StartApp)))
          (ext E (Adb StartApp)))"

text \<open>
  \<^verbatim>\<open>getDeviceDetails\<close>: the three queries are all started (\<^verbatim>\<open>B.all\<close>), and the
  result is rejected when one of them is.
\<close>

definition getDeviceDetails :: "env \<Rightarrow> unit action" where
  "getDeviceDetails E =
     (\<lambda>s. case ext E (Driver GetDevicePixelRatio) s of (r1, s1) \<Rightarrow>
          (case ext E (Driver GetStatusBarHeight) s1 of (r2, s2) \<Rightarrow>
          (case ext E (Driver GetViewPortRect) s2 of (r3, s3) \<Rightarrow>
             (case r1 of Inl e \<Rightarrow> (Inl e, s3) | Inr _ \<Rightarrow>
             (case r2 of Inl e \<Rightarrow> (Inl e, s3) | Inr _ \<Rightarrow> (r3, s3))))))"

text \<open>
  Modelled from the spec: \<^verbatim>\<open>retryInterval\<close> of the \<^verbatim>\<open>asyncbox\<close> package is not
  under \<^verbatim>\<open>src/\<close>. It is the bounded retry with a fixed interval of the spec: the
  action is attempted while fewer than \<open>maxTries\<close> attempts (the parameter \<^verbatim>\<open>times\<close>) were made, the first success
  ends it, and the error of the last attempt is raised. \<open>maxTries\<close> is the quotient the
  driver computes, a rational number here; the pauses are not modelled.
\<close>

function retry :: "rat \<Rightarrow> nat \<Rightarrow> unit action \<Rightarrow> unit action" where
  "retry maxTries tries m s =
     (if of_nat tries < maxTries then
        (case m s of
           (Inr a, s') \<Rightarrow> (Inr a, s')
         | (Inl e, s') \<Rightarrow> if maxTries \<le> of_nat (Suc tries) then (Inl e, s') else retry maxTries (Suc tries) m s')
      else (Inr (), s))"
  by pat_completeness auto
termination
  by (relation "measure (\<lambda>(maxTries, tries, m, s). nat \<lceil>maxTries\<rceil> - tries)") (auto simp: not_le, linarith)

declare retry.simps [simp del]

definition retryInterval :: "rat \<Rightarrow> nat \<Rightarrow> unit action \<Rightarrow> unit action" where
  "retryInterval maxTries sleepMs m = retry maxTries 0 m"

text \<open>Lines 553--560: \<^verbatim>\<open>timeout = autoWebviewTimeout || 2000\<close>, then the retries.\<close>

definition autoWebviewTimeoutOrDefault :: "driver \<Rightarrow> nat" where
  "autoWebviewTimeoutOrDefault s =
     (if truthyN (autoWebviewTimeout (opts s)) then numberOf (autoWebviewTimeout (opts s)) else 2000)"

definition enterAutoWebview :: "env \<Rightarrow> unit action" where
  "enterAutoWebview E =
     whenS (\<lambda>s. autoWebview (opts s))
       (withS autoWebviewTimeoutOrDefault
          (\<lambda>timeout. retryInterval (of_nat timeout / 500) 500 (ext E (Driver SetContext))))"

definition startUiAutomator2Session :: "env \<Rightarrow> unit action" where
  "startUiAutomator2Session E =
     seqA [
       ext E (Helper GetDeviceInfoFromCaps),
       ext E (Helper CreateADB),
       modify (\<lambda>s. s\<lparr>adb := True\<rparr>),
       bindA (adbGetApiLevel E)
         (\<lambda>api. seqA [
            whenA (api < 21) (throw UnsupportedApiLevel),
            whenA (api \<ge> 28) (ext E (Adb SetHiddenApiPolicy))]),
       withS (\<lambda>s. gpsEnabled (opts s))
         (\<lambda>g. case g of
                 None \<Rightarrow> ok ()
               | Some b \<Rightarrow>
                   if isEmulator E then ext E (Adb (ToggleGPSLocationProvider b))
                   else warn ''Sorry! 'gpsEnabled' capability is only available for emulators''),
       ext E (Helper GetLaunchInfo),
       modify (\<lambda>s. case launchInfo E of
                     None \<Rightarrow> s
                   | Some (pkg, activity) \<Rightarrow>
                       s\<lparr>opts := (opts s)\<lparr>appPackage := Some pkg, appActivity := Some activity\<rparr>\<rparr>),
       ext E (Helper InitDevice),
       allocateSystemPort E,
       allocateMjpegServerPort E,
       initUiAutomator2Server E,
       whenS (\<lambda>s. disableWindowAnimation (opts s))
         (bindA (adbGetApiLevel E)
            (\<lambda>api. whenA (api < 26)
               (bindA (extV E (Adb IsAnimationOn) (animationOn E))
                  (\<lambda>isOn. whenA isOn
                     (seqA [
                        ext E (Adb (SetAnimationState False)),
                        modify (\<lambda>s. s\<lparr>wasWindowAnimationDisabled := True\<rparr>)]))))),
       initAUT E,
       ext E (Server StartSession),
       ext E (Driver MobileGetDeviceInfo),
       whenS (\<lambda>s. \<not> skipUnlock (opts s)) (ext E (Helper Unlock)),
       ifS isChromeSession
         (ext E (Driver StartChromeSession))
         (whenS (\<lambda>s. autoLaunch (opts s) = Some True \<and> truthyS (appPackage (opts s)))
            (ensureAppStarts E)),
       whenS (\<lambda>s. hasValue (orientation (opts s))) (ext E (Driver SetOrientation)),
       enterAutoWebview E,
       modify (\<lambda>s. s\<lparr>jwpProxyActive := True\<rparr>),
       getDeviceDetails E
     ]"

subsection \<open>Teardown (lines 733--865)\<close>

definition screenRecordingStopTasks :: "env \<Rightarrow> unit action list" where
  "screenRecordingStopTasks E = [
     whenS screenRecording (ext E (Driver StopRecordingScreen)),
     bindA (extV E (Driver MobileIsMediaProjectionRecordingRunning) (mediaProjectionRunning E))
       (\<lambda>running. whenA running (ext E (Driver MobileStopMediaProjectionRecording))),
     whenS screenStreaming (ext E (Driver MobileStopScreenStreaming))
   ]"

definition deleteSession :: "env \<Rightarrow> unit action" where
  "deleteSession E =
     seqA [
       ext E (Helper RemoveAllSessionWebSocketHandlers),
       whenS uiautomator2
         (seqA [
            tryCatch (ext E (Driver StopChromedriverProxies))
              (\<lambda>err. warn ''Unable to stop ChromeDriver proxies''),
            whenS jwpProxyActive
              (tryCatch (ext E (Server DeleteSession))
                 (\<lambda>err. warn ''Unable to proxy deleteSession to UiAutomator2'')),
            modify (\<lambda>s. s\<lparr>uiautomator2 := False\<rparr>)]),
       modify (\<lambda>s. s\<lparr>jwpProxyActive := False\<rparr>),
       whenS adb
         (seqA [
            seqA (map (\<lambda>task. tryCatch task (\<lambda>ign. ok ())) (screenRecordingStopTasks E)),
            whenS (\<lambda>s. truthyS (androidCoverage (opts s)))
              (seqA [
                 ext E (Adb EndAndroidCoverage),
                 ifS (\<lambda>s. truthyS (androidCoverageEndIntent (opts s)))
                   (ext E (Adb Broadcast))
                   (warn ''No androidCoverageEndIntent is configured in caps. Possibly you cannot get coverage file.'')]),
            whenS (\<lambda>s. truthyS (appPackage (opts s)))
              (seqA [
                 whenS (\<lambda>s. \<not> isChromeSession s \<and>
                            ((\<not> dontStopAppOnReset (opts s) \<and> \<not> noReset (opts s)) \<or>
                             (noReset (opts s) \<and> shouldTerminateApp (opts s))))
                   (tryCatch (ext E (Adb ForceStop)) (\<lambda>err. warn ''Unable to force stop app'')),
                 whenS (\<lambda>s. fullReset (opts s) \<and> \<not> skipUninstall (opts s))
                   (tryCatch (ext E (Adb UninstallApk)) (\<lambda>err. warn ''Unable to uninstall app''))]),
            whenS wasWindowAnimationDisabled (ext E (Adb (SetAnimationState True))),
            ext E (Adb StopLogcat),
            tryCatch (releaseSystemPort E) (\<lambda>error. warn ''Unable to remove system port forward''),
            tryCatch (releaseMjpegServerPort E)
              (\<lambda>error. warn ''Unable to remove MJPEG server port forward''),
            bindA (adbGetApiLevel E)
              (\<lambda>api. whenA (api \<ge> 28) (ext E (Adb SetDefaultHiddenApiPolicy))),
            whenS (\<lambda>s. reboot (opts s))
              (withS (\<lambda>s. avd (opts s))
                 (\<lambda>a. case a of
                         None \<Rightarrow> throw AvdUndefined
                       | Some avdName \<Rightarrow>
                           tryCatch (ext E (Adb KillEmulator))
                             (\<lambda>err. warn ''Unable to close emulator'')))]),
       whenS mjpegStream (ext E (Host MjpegStreamStop)),
       ext E (Driver BaseDeleteSession),
       modify (\<lambda>s. s\<lparr>sessionId := None\<rparr>)
     ]"

subsection \<open>Session creation (lines 236--317)\<close>

definition provision :: "env \<Rightarrow> unit action" where
  "provision E =
     seqA [
       ext E (Driver BaseCreateSession),
       modify (\<lambda>s. s\<lparr>sessionId := Some (newSessionId E)\<rparr>),
       modify (\<lambda>s. s\<lparr>opts := (opts s)\<lparr>autoLaunch :=
                       (case autoLaunch (opts s) of None \<Rightarrow> Some True | Some b \<Rightarrow> Some b)\<rparr>\<rparr>),
       whenS isChromeSession
         (seqA [
            ext E (Helper GetChromePkg),
            modify (\<lambda>s. s\<lparr>opts := (opts s)\<lparr>appPackage := Some (fst (chromePkg E)),
                                           appActivity := Some (snd (chromePkg E))\<rparr>\<rparr>)]),
       whenS (\<lambda>s. reboot (opts s)) setAvdFromCapabilities,
       whenS (\<lambda>s. truthyS (app (opts s)))
         (seqA [
            ext E (Helper ConfigureApp),
            modify (\<lambda>s. s\<lparr>opts := (opts s)\<lparr>app := Some (configuredApp E)\<rparr>\<rparr>),
            checkAppPresent E]),
       startUiAutomator2Session E,
       whenS (\<lambda>s. truthyS (mjpegScreenshotUrl (opts s)))
         (seqA [
            modify (\<lambda>s. s\<lparr>mjpegStream := True\<rparr>),
            ext E (Host MjpegStreamStart)])
     ]"

text \<open>\<^verbatim>\<open>try { ... } catch (e) { await this.deleteSession(); throw e; }\<close>\<close>

definition createSession :: "env \<Rightarrow> unit action" where
  "createSession E = tryCatch (provision E) (\<lambda>e. thenA (deleteSession E) (throw e))"

subsection \<open>Proxying (lines 880--909)\<close>

definition proxyActive :: "driver \<Rightarrow> string \<Rightarrow> bool" where
  "proxyActive s sid = True"

definition canProxy :: "driver \<Rightarrow> string \<Rightarrow> bool" where
  "canProxy s sid = True"

definition getProxyAvoidList :: "driver \<Rightarrow> routeMatcher list \<times> driver" where
  "getProxyAvoidList s =
     (let s1 = (if hasValue (chromedriver s) then s\<lparr>jwpProxyAvoid := CHROME_NO_PROXY\<rparr>
                else s\<lparr>jwpProxyAvoid := NO_PROXY\<rparr>);
          s2 = (if nativeWebScreenshot (opts s1)
                then s1\<lparr>jwpProxyAvoid := jwpProxyAvoid s1 @ [SCREENSHOT_RULE]\<rparr>
                else s1)
      in (jwpProxyAvoid s2, s2))"

text \<open>
  Modelled from the spec: the matching of a request against the list (the base driver's
  \<^verbatim>\<open>proxyRouteIsAvoided\<close> and the dispatch on it) is not under \<^verbatim>\<open>src/\<close>. A request
  matches a rule when its method equals the rule's method and its path matches the
  rule's pattern; on any match it is handled locally, otherwise it is proxied to the
  device server.
\<close>

datatype decision = HandleLocally | ProxyToDevice

fun proxyRouteIsAvoided :: "routeMatcher list \<Rightarrow> string \<Rightarrow> string \<Rightarrow> bool" where
  "proxyRouteIsAvoided [] rmethod path = False"
| "proxyRouteIsAvoided ((avoidMethod, avoidPathRegex) # rest) rmethod path =
     (if avoidMethod = rmethod \<and> test avoidPathRegex path then True
      else proxyRouteIsAvoided rest rmethod path)"

definition route :: "driver \<Rightarrow> string \<Rightarrow> string \<Rightarrow> decision" where
  "route s rmethod path =
     (if proxyActive s (case sessionId s of Some i \<Rightarrow> i | None \<Rightarrow> [])
         \<and> \<not> proxyRouteIsAvoided (fst (getProxyAvoidList s)) rmethod path
      then ProxyToDevice else HandleLocally)"

subsection \<open>The constructor, and an environment in which nothing goes wrong\<close>

text \<open>
  The constructor (lines 194--227) leaves every field of the object unset but
  \<^verbatim>\<open>jwpProxyActive = false\<close> and \<^verbatim>\<open>jwpProxyAvoid = NO_PROXY\<close>. \<open>noOpts\<close> is
  the empty capability bundle.
\<close>

definition noOpts :: opts where
  "noOpts = \<lparr>app = None, appPackage = None, appActivity = None, deviceName = None,
     platformVersion = None, avd = None, reboot = False, fullReset = False, fastReset = False,
     noReset = False, noSign = False, skipUninstall = False, skipUnlock = False,
     skipServerInstallation = False, autoLaunch = None, forceAppLaunch = False,
     dontStopAppOnReset = False, shouldTerminateApp = False, gpsEnabled = None,
     disableWindowAnimation = False, uninstallOtherPackages = None, otherApps = None,
     orientation = None, autoWebview = False, autoWebviewTimeout = None,
     mjpegServerPort = None, mjpegScreenshotUrl = None, nativeWebScreenshot = False,
     androidCoverage = None, androidCoverageEndIntent = None\<rparr>"

definition newDriver :: "opts \<Rightarrow> driver" where
  "newDriver os = \<lparr>opts = os, sessionId = None, isChromeSession = False, uiautomator2 = False,
     adb = False, systemPort = None, hasSystemPortInCaps = False, mjpegStream = False,
     jwpProxyActive = False, jwpProxyAvoid = NO_PROXY, chromedriver = None,
     wasWindowAnimationDisabled = False, screenRecording = False, screenStreaming = False,
     warnings = [], trace = [], forwards = Map.empty\<rparr>"

text \<open>
  A host with no busy port and an Android 11 device (API level 30) on which every call
  succeeds; the concrete runs below change it where something is to fail.
\<close>

definition quiet :: env where
  "quiet = \<lparr>fails = (\<lambda>n c. False), portOpen = (\<lambda>p. False), apiLevel = 30, isEmulator = False,
     newSessionId = ''session-1'',
     chromePkg = (''com.android.chrome'', ''com.google.android.apps.chrome.Main''),
     configuredApp = ''/tmp/app.apk'', appExists = True, launchInfo = None, animationOn = False,
     appInstalled = False, apkCertOk = True, processRunning = False,
     mediaProjectionRunning = False\<rparr>"


subsection \<open>Assertions about actions\<close>

text \<open>
  \<open>triple P m Q X\<close>: started in a state that satisfies \<open>P\<close>, the action \<open>m\<close> either
  returns a value \<open>a\<close> in a state that satisfies \<open>Q a\<close>, or raises an error \<open>e\<close> in a
  state that satisfies \<open>X e\<close>.
\<close>

definition triple ::
  "(driver \<Rightarrow> bool) \<Rightarrow> 'a action \<Rightarrow> ('a \<Rightarrow> driver \<Rightarrow> bool) \<Rightarrow> (error \<Rightarrow> driver \<Rightarrow> bool) \<Rightarrow> bool" where
  "triple P m Q X \<longleftrightarrow>
     (\<forall>s. P s \<longrightarrow> (case m s of (Inl e, s') \<Rightarrow> X e s' | (Inr a, s') \<Rightarrow> Q a s'))"

text \<open>
  The external calls that \<open>deleteSession\<close> makes inside a \<^verbatim>\<open>try\<close> block of its own
  (lines 757--768, 776--780, 805--819, 828--841 and 853--857): stopping the chromedriver
  proxies, ending the session of the device server, the three recording and streaming
  stops, the force stop and the uninstall of the application, the two port releases
  (with the lock guard of the first) and the shutdown of the emulator.
\<close>

fun caughtInTeardown :: "call \<Rightarrow> bool" where
  "caughtInTeardown (Driver StopChromedriverProxies) = True"
| "caughtInTeardown (Server DeleteSession) = True"
| "caughtInTeardown (Driver StopRecordingScreen) = True"
| "caughtInTeardown (Driver MobileIsMediaProjectionRecordingRunning) = True"
| "caughtInTeardown (Driver MobileStopMediaProjectionRecording) = True"
| "caughtInTeardown (Driver MobileStopScreenStreaming) = True"
| "caughtInTeardown (Adb ForceStop) = True"
| "caughtInTeardown (Adb UninstallApk) = True"
| "caughtInTeardown (Adb (RemovePortForward l)) = True"
| "caughtInTeardown (Host AcquireGuard) = True"
| "caughtInTeardown (Host ReleaseGuard) = True"
| "caughtInTeardown (Adb KillEmulator) = True"
| "caughtInTeardown c = False"

text \<open>
  What teardown never writes: \<open>sameSession n0 s0 s\<close> says that \<open>s\<close> has the options, the
  bridge and the port of \<open>s0\<close>, and a trace of at least \<open>n0\<close> calls.
\<close>

definition sameSession :: "nat \<Rightarrow> driver \<Rightarrow> driver \<Rightarrow> bool" where
  "sameSession n0 s0 s \<longleftrightarrow>
     opts s = opts s0 \<and> adb s = adb s0 \<and> systemPort s = systemPort s0
     \<and> hasSystemPortInCaps s = hasSystemPortInCaps s0 \<and> n0 \<le> length (trace s)"

text \<open>Concrete sessions and environments of the scenarios examined below.\<close>

definition wants9000 :: driver where
  "wants9000 = (newDriver noOpts)\<lparr>systemPort := Some 9000\<rparr>"

definition port9000Busy :: env where
  "port9000Busy = quiet\<lparr>portOpen := (\<lambda>p. p = 9000)\<rparr>"

definition bridgeAttached :: driver where
  "bridgeAttached = (newDriver noOpts)\<lparr>adb := True\<rparr>"

definition rangeBusyBelow8203 :: env where
  "rangeBusyBelow8203 = quiet\<lparr>portOpen := (\<lambda>p. p < 8203)\<rparr>"

definition rangeExhausted :: env where
  "rangeExhausted = quiet\<lparr>portOpen := (\<lambda>p. 8200 \<le> p \<and> p \<le> 8299)\<rparr>"

definition secondRemovalFails :: env where
  "secondRemovalFails = quiet\<lparr>fails := (\<lambda>n c. c = Adb (RemovePortForward 8200) \<and> 8 \<le> n)\<rparr>"

definition leased :: driver where
  "leased = snd (allocateSystemPort quiet bridgeAttached)"

definition webSession :: driver where
  "webSession = (newDriver (noOpts\<lparr>nativeWebScreenshot := True\<rparr>))
                  \<lparr>sessionId := Some ''session-1'', chromedriver := Some 1\<rparr>"





definition installFails :: env where
  "installFails = quiet\<lparr>fails := (\<lambda>n c. n = 13 \<and> c = Server InstallServerApk)\<rparr>"

definition installAndLogcatFail :: env where
  "installAndLogcatFail =
     quiet\<lparr>fails := (\<lambda>n c. c = Server InstallServerApk \<or> c = Adb StopLogcat)\<rparr>"

section \<open>Properties\<close>

lemmas action_defs = ok_def throw_def bindA_def thenA_def tryCatch_def tryFinally_def modify_def
  withS_def ifS_def whenS_def whenA_def warn_def record_call_def ext_def extV_def observe_def

lemmas port_defs = DEVICE_PORT_ALLOCATION_GUARD_def adbForwardPort_def adbRemovePortForward_def
  checkPortStatus_def findAPortNotInUse_def forwardPort_def allocateSystemPort_def
  releaseSystemPort_def allocateMjpegServerPort_def releaseMjpegServerPort_def
  DEVICE_PORT_RANGE_def DEVICE_PORT_def MJPEG_SERVER_DEVICE_PORT_def truthyN_def numberOf_def

lemmas lifecycle_defs = createSession_def provision_def startUiAutomator2Session_def deleteSession_def
  initUiAutomator2Server_def initAUT_def ensureAppStarts_def getDeviceDetails_def enterAutoWebview_def
  retryInterval_def autoWebviewTimeoutOrDefault_def screenRecordingStopTasks_def
  setAvdFromCapabilities_def checkAppPresent_def adbGetApiLevel_def truthyS_def hasValue_def

lemmas run_defs = lifecycle_defs action_defs port_defs

lemmas sample_defs = noOpts_def newDriver_def quiet_def wants9000_def port9000Busy_def
  bridgeAttached_def rangeBusyBelow8203_def rangeExhausted_def secondRemovalFails_def
  leased_def webSession_def

subsection \<open>Rules for assertions\<close>

lemma tripleI:
  "(\<And>s. P s \<Longrightarrow> (case m s of (Inl e, s') \<Rightarrow> X e s' | (Inr a, s') \<Rightarrow> Q a s')) \<Longrightarrow> triple P m Q X"
  by (simp add: triple_def)

lemma tripleD:
  "triple P m Q X \<Longrightarrow> P s \<Longrightarrow> (case m s of (Inl e, s') \<Rightarrow> X e s' | (Inr a, s') \<Rightarrow> Q a s')"
  by (simp add: triple_def)

lemma tripleD_Inl: "triple P m Q X \<Longrightarrow> P s \<Longrightarrow> m s = (Inl e, s') \<Longrightarrow> X e s'"
  by (drule tripleD [where s = s]) simp_all

lemma tripleD_Inr: "triple P m Q X \<Longrightarrow> P s \<Longrightarrow> m s = (Inr a, s') \<Longrightarrow> Q a s'"
  by (drule tripleD [where s = s]) simp_all

lemma triple_ok: "(\<And>s. P s \<Longrightarrow> Q a s) \<Longrightarrow> triple P (ok a) Q X"
  by (simp add: triple_def ok_def)

lemma triple_throw: "(\<And>s. P s \<Longrightarrow> X e s) \<Longrightarrow> triple P (throw e) Q X"
  by (simp add: triple_def throw_def)

lemma triple_modify: "(\<And>s. P s \<Longrightarrow> Q () (f s)) \<Longrightarrow> triple P (modify f) Q X"
  by (simp add: triple_def modify_def)

lemma triple_warn:
  "(\<And>s. P s \<Longrightarrow> Q () (s\<lparr>warnings := warnings s @ [msg]\<rparr>)) \<Longrightarrow> triple P (warn msg) Q X"
  by (simp add: triple_def modify_def warn_def)

lemma triple_record_call:
  "(\<And>s. P s \<Longrightarrow> Q () (s\<lparr>trace := trace s @ [c]\<rparr>)) \<Longrightarrow> triple P (record_call c) Q X"
  by (simp add: triple_def modify_def record_call_def)

lemma triple_ext:
  "(\<And>s. P s \<Longrightarrow> fails E (length (trace s)) c \<Longrightarrow> X (External c) (s\<lparr>trace := trace s @ [c]\<rparr>)) \<Longrightarrow>
   (\<And>s. P s \<Longrightarrow> \<not> fails E (length (trace s)) c \<Longrightarrow> Q () (s\<lparr>trace := trace s @ [c]\<rparr>)) \<Longrightarrow>
   triple P (ext E c) Q X"
  by (simp add: triple_def ext_def)

lemma triple_bindA:
  assumes m: "triple P m R X" and f: "\<And>a. triple (R a) (f a) Q X"
  shows "triple P (bindA m f) Q X"
proof (rule tripleI)
  fix s assume P: "P s"
  obtain r s' where ms: "m s = (r, s')" by (cases "m s")
  show "case bindA m f s of (Inl e, s') \<Rightarrow> X e s' | (Inr a, s') \<Rightarrow> Q a s'"
  proof (cases r)
    case (Inl e)
    with tripleD_Inl [OF m P] ms show ?thesis by (simp add: bindA_def)
  next
    case (Inr a)
    with tripleD_Inr [OF m P] ms have "R a s'" by simp
    from tripleD [OF f this] ms Inr show ?thesis by (simp add: bindA_def)
  qed
qed

lemma triple_thenA:
  "triple P m (\<lambda>_. R) X \<Longrightarrow> triple R n Q X \<Longrightarrow> triple P (thenA m n) Q X"
  unfolding thenA_def by (rule triple_bindA)

lemma triple_seqA_Nil: "(\<And>s. P s \<Longrightarrow> Q () s) \<Longrightarrow> triple P (seqA []) Q X"
  by (simp add: triple_ok)

lemma triple_seqA_Cons:
  "triple P m (\<lambda>_. R) X \<Longrightarrow> triple R (seqA ms) Q X \<Longrightarrow> triple P (seqA (m # ms)) Q X"
  by (simp add: triple_thenA)

lemma triple_tryCatch:
  assumes m: "triple P m Q Y" and h: "\<And>e. triple (Y e) (h e) Q X"
  shows "triple P (tryCatch m h) Q X"
proof (rule tripleI)
  fix s assume P: "P s"
  obtain r s' where ms: "m s = (r, s')" by (cases "m s")
  show "case tryCatch m h s of (Inl e, s') \<Rightarrow> X e s' | (Inr a, s') \<Rightarrow> Q a s'"
  proof (cases r)
    case (Inl e)
    with tripleD_Inl [OF m P] ms have "Y e s'" by simp
    from tripleD [OF h this] ms Inl show ?thesis by (simp add: tryCatch_def)
  next
    case (Inr a)
    with tripleD_Inr [OF m P] ms show ?thesis by (simp add: tryCatch_def)
  qed
qed

lemma triple_ifS:
  "triple (\<lambda>s. P s \<and> c s) m Q X \<Longrightarrow> triple (\<lambda>s. P s \<and> \<not> c s) n Q X \<Longrightarrow> triple P (ifS c m n) Q X"
  by (auto simp: triple_def ifS_def)

lemma triple_whenS:
  "triple (\<lambda>s. P s \<and> c s) m Q X \<Longrightarrow> (\<And>s. P s \<Longrightarrow> \<not> c s \<Longrightarrow> Q () s) \<Longrightarrow> triple P (whenS c m) Q X"
  unfolding whenS_def by (rule triple_ifS) (auto intro: triple_ok)

lemma triple_whenA:
  "(b \<Longrightarrow> triple P m Q X) \<Longrightarrow> (\<And>s. \<not> b \<Longrightarrow> P s \<Longrightarrow> Q () s) \<Longrightarrow> triple P (whenA b m) Q X"
  by (cases b) (auto simp: whenA_def intro: triple_ok)

lemma triple_withS:
  "(\<And>v. triple (\<lambda>s. P s \<and> g s = v) (k v) Q X) \<Longrightarrow> triple P (withS g k) Q X"
  by (auto simp: triple_def withS_def)

lemma triple_weaken:
  assumes m: "triple P' m Q' X'" and p: "\<And>s. P s \<Longrightarrow> P' s"
    and q: "\<And>a s. Q' a s \<Longrightarrow> Q a s" and x: "\<And>e s. X' e s \<Longrightarrow> X e s"
  shows "triple P m Q X"
proof (rule tripleI)
  fix s assume "P s"
  then have P': "P' s" by (rule p)
  obtain r s' where ms: "m s = (r, s')" by (cases "m s")
  show "case m s of (Inl e, s') \<Rightarrow> X e s' | (Inr a, s') \<Rightarrow> Q a s'"
  proof (cases r)
    case (Inl e)
    with tripleD_Inl [OF m P'] ms x show ?thesis by simp
  next
    case (Inr a)
    with tripleD_Inr [OF m P'] ms q show ?thesis by simp
  qed
qed

lemma triple_pre:
  "triple P' m Q X \<Longrightarrow> (\<And>s. P s \<Longrightarrow> P' s) \<Longrightarrow> triple P m Q X"
  by (erule triple_weaken)

lemma triple_false: "triple (\<lambda>s. False) m Q X"
  by (simp add: triple_def)

lemma triple_case_option:
  "(v = None \<Longrightarrow> triple P m Q X) \<Longrightarrow> (\<And>x. v = Some x \<Longrightarrow> triple P (n x) Q X) \<Longrightarrow>
   triple P (case v of None \<Rightarrow> m | Some x \<Rightarrow> n x) Q X"
  by (cases v) simp_all

text \<open>
  The same rules for a postcondition that is an invariant \<open>I\<close>: a goal
  \<open>triple P m (\<lambda>_. I) X\<close> is reduced to goals of the same shape about the parts of
  \<open>m\<close>, and in the end to statements about single state updates.
\<close>

lemma inv_bindA:
  "triple P m (\<lambda>_. I) X \<Longrightarrow> (\<And>a. triple I (f a) (\<lambda>_. I) X) \<Longrightarrow> triple P (bindA m f) (\<lambda>_. I) X"
  by (rule triple_bindA)

lemma inv_thenA:
  "triple P m (\<lambda>_. I) X \<Longrightarrow> triple I n (\<lambda>_. I) X \<Longrightarrow> triple P (thenA m n) (\<lambda>_. I) X"
  by (rule triple_thenA)

lemma inv_seqA_Cons:
  "triple P m (\<lambda>_. I) X \<Longrightarrow> triple I (seqA ms) (\<lambda>_. I) X \<Longrightarrow> triple P (seqA (m # ms)) (\<lambda>_. I) X"
  by (rule triple_seqA_Cons)

lemma inv_tryCatch:
  "triple P m (\<lambda>_. I) (\<lambda>_. I) \<Longrightarrow> (\<And>e. triple I (h e) (\<lambda>_. I) X) \<Longrightarrow>
   triple P (tryCatch m h) (\<lambda>_. I) X"
  by (rule triple_tryCatch)

lemma inv_extV:
  "triple P (ext E c) (\<lambda>_. I) X \<Longrightarrow> triple P (extV E c v) (\<lambda>_. I) X"
  unfolding extV_def by (rule triple_bindA, assumption) (rule triple_ok)

lemma inv_observe:
  "triple P (record_call c) (\<lambda>_. I) X \<Longrightarrow> triple P (observe c v) (\<lambda>_. I) X"
  unfolding observe_def by (rule triple_bindA, assumption) (rule triple_ok)

lemma inv_tryFinally:
  assumes m: "triple P m (\<lambda>_. I) (\<lambda>_. I)" and f: "triple I f (\<lambda>_. I) X"
    and x: "\<And>e s. I s \<Longrightarrow> X e s"
  shows "triple P (tryFinally m f) (\<lambda>_. I) X"
proof (rule tripleI)
  fix s assume P: "P s"
  obtain r s' where ms: "m s = (r, s')" by (cases "m s")
  from tripleD [OF m P] ms have I: "I s'" by (cases r) simp_all
  obtain r2 s2 where fs: "f s' = (r2, s2)" by (cases "f s'")
  show "case tryFinally m f s of (Inl e, s') \<Rightarrow> X e s' | (Inr a, s') \<Rightarrow> I s'"
  proof (cases r2)
    case (Inl e)
    with tripleD_Inl [OF f I] fs ms show ?thesis by (simp add: tryFinally_def)
  next
    case (Inr u)
    with tripleD_Inr [OF f I] fs have "I s2" by simp
    with x ms fs Inr show ?thesis by (cases r) (simp_all add: tryFinally_def)
  qed
qed

lemma inv_getDeviceDetails:
  assumes t: "\<And>s c. I s \<Longrightarrow> I (s\<lparr>trace := trace s @ [c]\<rparr>)" and x: "\<And>s e. I s \<Longrightarrow> X e s"
    and p: "\<And>s. P s \<Longrightarrow> I s"
  shows "triple P (getDeviceDetails E) (\<lambda>_. I) X"
proof (rule tripleI)
  fix s assume "P s"
  then have "I s" by (rule p)
  then have "I (s\<lparr>trace := trace s @ [Driver GetDevicePixelRatio]\<rparr>)" by (rule t)
  then have "I (s\<lparr>trace := trace s @ [Driver GetDevicePixelRatio]\<rparr>
      \<lparr>trace := trace (s\<lparr>trace := trace s @ [Driver GetDevicePixelRatio]\<rparr>) @ [Driver GetStatusBarHeight]\<rparr>)"
    by (rule t)
  then have "I (s\<lparr>trace := trace s @ [Driver GetDevicePixelRatio]\<rparr>
      \<lparr>trace := trace (s\<lparr>trace := trace s @ [Driver GetDevicePixelRatio]\<rparr>) @ [Driver GetStatusBarHeight]\<rparr>
      \<lparr>trace := trace (s\<lparr>trace := trace s @ [Driver GetDevicePixelRatio]\<rparr>
      \<lparr>trace := trace (s\<lparr>trace := trace s @ [Driver GetDevicePixelRatio]\<rparr>) @ [Driver GetStatusBarHeight]\<rparr>)
         @ [Driver GetViewPortRect]\<rparr>)"
    by (rule t)
  then have fin: "I (s\<lparr>trace := trace s @ [Driver GetDevicePixelRatio, Driver GetStatusBarHeight,
      Driver GetViewPortRect]\<rparr>)"
    by simp
  with x have "X e (s\<lparr>trace := trace s @ [Driver GetDevicePixelRatio, Driver GetStatusBarHeight,
      Driver GetViewPortRect]\<rparr>)" for e
    by blast
  with fin show "case getDeviceDetails E s of (Inl e, s') \<Rightarrow> X e s' | (Inr a, s') \<Rightarrow> I s'"
    by (simp add: getDeviceDetails_def ext_def)
qed

lemma retry_inv:
  "triple I m (\<lambda>_. I) X \<Longrightarrow> (\<forall>e s. X e s \<longrightarrow> I s) \<Longrightarrow> I s \<Longrightarrow>
   (case retry maxTries tries m s of (Inl e, s') \<Rightarrow> X e s' | (Inr a, s') \<Rightarrow> I s')"
proof (induction maxTries tries m s rule: retry.induct)
  case (1 maxTries tries m s)
  obtain r s' where ms: "m s = (r, s')" by (cases "m s")
  show ?case
  proof (cases r)
    case (Inl e)
    with tripleD_Inl [OF "1.prems"(1) "1.prems"(3)] ms have xs: "X e s'" by simp
    with "1.prems"(2) have "I s'" by blast
    with "1.IH" [OF _ ms [symmetric] Inl _ "1.prems"(1) "1.prems"(2)] ms Inl xs "1.prems"(3)
    show ?thesis
      by (subst retry.simps) auto
  next
    case (Inr a)
    with tripleD_Inr [OF "1.prems"(1) "1.prems"(3)] ms "1.prems"(3) show ?thesis
      by (subst retry.simps) auto
  qed
qed

lemma inv_retry:
  "triple I m (\<lambda>_. I) X \<Longrightarrow> (\<And>e s. X e s \<Longrightarrow> I s) \<Longrightarrow> triple I (retry maxTries tries m) (\<lambda>_. I) X"
  by (rule tripleI) (rule retry_inv, auto)

lemma inv_whenS_adb:
  assumes m: "triple (\<lambda>s. I s \<and> adb s) m (\<lambda>_ s. I s \<and> adb s) X" and p: "\<And>s. P s \<Longrightarrow> I s"
  shows "triple P (whenS adb m) (\<lambda>_. I) X"
proof (rule triple_whenS)
  show "triple (\<lambda>s. P s \<and> adb s) m (\<lambda>_. I) X"
    by (rule triple_weaken [OF m]) (auto dest: p)
qed (rule p)

lemmas inv_rules = inv_bindA inv_thenA inv_seqA_Cons triple_seqA_Nil inv_tryCatch inv_extV inv_observe
  triple_ifS triple_whenS triple_whenA triple_withS

lemmas leaf_rules = triple_ext triple_modify triple_warn triple_record_call triple_ok triple_throw

lemmas auto_rules = inv_whenS_adb inv_rules inv_tryFinally triple_case_option leaf_rules

lemma seqA_append: "seqA (xs @ ys) = thenA (seqA xs) (seqA ys)"
proof (induction xs)
  case Nil
  show ?case by (rule ext) (simp add: thenA_def bindA_def ok_def)
next
  case (Cons x xs)
  show ?case
    by (rule ext) (simp add: Cons thenA_def bindA_def split: prod.splits sum.splits)
qed

lemma triple_seqA_append:
  "triple P (seqA xs) (\<lambda>_. R) X \<Longrightarrow> triple R (seqA ys) Q X \<Longrightarrow> triple P (seqA (xs @ ys)) Q X"
  by (simp add: seqA_append triple_thenA)


lemmas triple_seqA_3 = triple_seqA_append [of _ "[a, b, c]" for a b c, simplified append.simps]

lemmas triple_seqA_5 = triple_seqA_append [of _ "[a, b, c, d, e]" for a b c d e, simplified append.simps]

subsection \<open>Route matching\<close>

lemma proxyRouteIsAvoided_iff:
  "proxyRouteIsAvoided rules m p \<longleftrightarrow> (\<exists>(m', re) \<in> set rules. m' = m \<and> test re p)"
  by (induction rules m p rule: proxyRouteIsAvoided.induct) auto

lemma getProxyAvoidList_fst:
  "fst (getProxyAvoidList s) =
     (if hasValue (chromedriver s) then CHROME_NO_PROXY else NO_PROXY)
     @ (if nativeWebScreenshot (opts s) then [SCREENSHOT_RULE] else [])"
  by (simp add: getProxyAvoidList_def Let_def)

text \<open>
  C10. Whatever the session identifier and whatever the state of the driver,
  \<open>proxyActive\<close> and \<open>canProxy\<close> answer true: in particular in the state the
  constructor leaves, where \<open>jwpProxyActive\<close> is still false, and in every state in which
  that flag has been cleared again.
\<close>

theorem proxyActive_canProxy_always:
  "proxyActive s sid \<and> canProxy s sid
   \<and> proxyActive (s\<lparr>jwpProxyActive := False\<rparr>) sid \<and> canProxy (s\<lparr>jwpProxyActive := False\<rparr>) sid
   \<and> \<not> jwpProxyActive (newDriver os) \<and> proxyActive (newDriver os) sid \<and> canProxy (newDriver os) sid"
  by (simp add: proxyActive_def canProxy_def newDriver_def)

theorem proxyActive_canProxy_always_witness:
  "proxyActive (newDriver noOpts) ''session-1'' \<and> canProxy (newDriver noOpts) ''session-1''
   \<and> \<not> jwpProxyActive (newDriver noOpts)"
  using proxyActive_canProxy_always [of "newDriver noOpts" "''session-1''" noOpts]
  by simp

text \<open>
  C7. The list a request is matched against is the embedded-web table when a chromedriver
  is active and the native table otherwise (followed by the screenshot rule when
  \<open>nativeWebScreenshot\<close> is set, see C8); a request is handled locally when its method
  and path match a rule of that list, and is proxied to the device server otherwise.
\<close>

theorem route_by_active_table:
  "fst (getProxyAvoidList s) =
     (if hasValue (chromedriver s) then CHROME_NO_PROXY else NO_PROXY)
     @ (if nativeWebScreenshot (opts s) then [SCREENSHOT_RULE] else [])
   \<and> route s m p =
     (if \<exists>(m', re) \<in> set (fst (getProxyAvoidList s)). m' = m \<and> test re p
      then HandleLocally else ProxyToDevice)"
  by (simp add: route_def proxyActive_def proxyRouteIsAvoided_iff getProxyAvoidList_fst)

theorem route_by_active_table_witness:
  "fst (getProxyAvoidList (newDriver noOpts)) = NO_PROXY
   \<and> fst (getProxyAvoidList ((newDriver noOpts)\<lparr>chromedriver := Some 1\<rparr>)) = CHROME_NO_PROXY
   \<and> route (newDriver noOpts) ''GET'' ''/session/abc/orientation'' = ProxyToDevice
   \<and> route ((newDriver noOpts)\<lparr>chromedriver := Some 1\<rparr>) ''GET'' ''/session/abc/orientation''
       = HandleLocally"
proof -
  have native: "hasValue (chromedriver (newDriver noOpts)) = False"
    and web: "hasValue (chromedriver ((newDriver noOpts)\<lparr>chromedriver := Some 1\<rparr>)) = True"
    and plain: "nativeWebScreenshot (opts (newDriver noOpts)) = False"
      "nativeWebScreenshot (opts ((newDriver noOpts)\<lparr>chromedriver := Some 1\<rparr>)) = False"
    by (simp_all add: newDriver_def noOpts_def hasValue_def)
  have no_rule: "(\<exists>(m', re) \<in> set (fst (getProxyAvoidList (newDriver noOpts))).
      m' = ''GET'' \<and> test re ''/session/abc/orientation'') = False"
    by code_simp
  have a_rule: "(\<exists>(m', re) \<in> set (fst (getProxyAvoidList ((newDriver noOpts)\<lparr>chromedriver := Some 1\<rparr>))).
      m' = ''GET'' \<and> test re ''/session/abc/orientation'') = True"
    by code_simp
  from route_by_active_table [of "newDriver noOpts" "''GET''" "''/session/abc/orientation''"]
    route_by_active_table [of "(newDriver noOpts)\<lparr>chromedriver := Some 1\<rparr>" "''GET''"
      "''/session/abc/orientation''"]
  show ?thesis
    unfolding no_rule a_rule native web plain by simp
qed




subsection \<open>Port allocation\<close>







lemma leased_state:
  "leased = bridgeAttached\<lparr>systemPort := Some 8200,
     trace := [Host AcquireGuard, Host (FindAPortNotInUse 8200 8299), Host (CheckPortStatus 8200),
               Adb (ForwardPort 8200 6790), Host ReleaseGuard],
     forwards := [8200 \<mapsto> 6790]\<rparr>"
  by (simp add: sample_defs action_defs port_defs)

text \<open>
  C3, as the code has it. \<open>releaseSystemPort\<close> does not remember that it has run: after
  the lease was acquired, a second call asks the device bridge again to remove the
  forward of the same port (under the guard for a scanned port). It produces no error
  provided that this second call of the bridge, and the guard, do not fail.
\<close>

theorem second_release_needs_bridge:
  assumes "systemPort s = Some p" and "p \<noteq> 0" and "adb s"
    and "\<forall>n > length (trace s). \<not> fails E n (Adb (RemovePortForward p))
           \<and> \<not> fails E n (Host AcquireGuard) \<and> \<not> fails E n (Host ReleaseGuard)"
  shows "fst (releaseSystemPort E (snd (releaseSystemPort E s))) = Inr ()
       \<and> forwards (snd (releaseSystemPort E (snd (releaseSystemPort E s)))) p = None
       \<and> trace (snd (releaseSystemPort E (snd (releaseSystemPort E s)))) =
           trace (snd (releaseSystemPort E s))
           @ (if hasSystemPortInCaps s then [Adb (RemovePortForward p)]
              else [Host AcquireGuard, Adb (RemovePortForward p), Host ReleaseGuard])"
  using assms by (simp add: action_defs port_defs)

theorem second_release_needs_bridge_witness:
  "systemPort leased = Some 8200 \<and> adb leased \<and> forwards leased 8200 = Some 6790
   \<and> fst (releaseSystemPort quiet (snd (releaseSystemPort quiet leased))) = Inr ()
   \<and> forwards (snd (releaseSystemPort quiet (snd (releaseSystemPort quiet leased)))) 8200 = None"
proof -
  have hyps: "systemPort leased = Some 8200" "(8200::nat) \<noteq> 0" "adb leased"
    "\<forall>n > length (trace leased). \<not> fails quiet n (Adb (RemovePortForward 8200))
       \<and> \<not> fails quiet n (Host AcquireGuard) \<and> \<not> fails quiet n (Host ReleaseGuard)"
    unfolding leased_state by (simp_all add: sample_defs)
  have fw: "forwards leased 8200 = Some 6790"
    unfolding leased_state by simp
  from second_release_needs_bridge [OF hyps] hyps fw show ?thesis
    by simp
qed

text \<open>
  C3 as stated fails where the bridge rejects the removal of a forward that is no longer
  there: the port is scanned and leased, the first release succeeds, and the second
  release raises the error of the bridge.
\<close>

theorem second_release_raises:
  "fst (allocateSystemPort secondRemovalFails bridgeAttached) = Inr ()
   \<and> snd (allocateSystemPort secondRemovalFails bridgeAttached) = leased
   \<and> fst (releaseSystemPort secondRemovalFails leased) = Inr ()
   \<and> fst (releaseSystemPort secondRemovalFails (snd (releaseSystemPort secondRemovalFails leased)))
       = Inl (External (Adb (RemovePortForward 8200)))"
proof -
  have a: "allocateSystemPort secondRemovalFails bridgeAttached = (Inr (), leased)"
    unfolding leased_state by (simp add: sample_defs action_defs port_defs)
  have b: "releaseSystemPort secondRemovalFails leased =
      (Inr (), leased\<lparr>trace := trace leased @ [Host AcquireGuard, Adb (RemovePortForward 8200), Host ReleaseGuard],
                      forwards := Map.empty\<rparr>)"
    unfolding leased_state by (simp add: sample_defs action_defs port_defs)
  have c: "fst (releaseSystemPort secondRemovalFails (snd (releaseSystemPort secondRemovalFails leased)))
       = Inl (External (Adb (RemovePortForward 8200)))"
    unfolding b unfolding leased_state by (simp add: sample_defs action_defs port_defs)
  from a b c show ?thesis by simp
qed

subsection \<open>Teardown and failed starts\<close>



lemma release_removes_forward:
  assumes port: "adb s0" "systemPort s0 = Some p" "p \<noteq> 0"
    and nofail: "\<And>n. n0 \<le> n \<Longrightarrow> \<not> fails E n (Adb (RemovePortForward p))
        \<and> \<not> fails E n (Host AcquireGuard) \<and> \<not> fails E n (Host ReleaseGuard)"
  shows "triple (sameSession n0 s0) (tryCatch (releaseSystemPort E) h)
           (\<lambda>_ s. sameSession n0 s0 s \<and> forwards s p = None
                  \<and> Adb (RemovePortForward p) \<in> set (drop n0 (trace s)))
           (\<lambda>_ _. False)"
proof (rule tripleI)
  fix s assume "sameSession n0 s0 s"
  with port have s: "adb s" "systemPort s = Some p" "n0 \<le> length (trace s)"
    "opts s = opts s0" "adb s = adb s0" "systemPort s = systemPort s0"
    "hasSystemPortInCaps s = hasSystemPortInCaps s0"
    by (simp_all add: sameSession_def)
  from nofail s(3) have n: "\<not> fails E (length (trace s)) (Adb (RemovePortForward p))"
    "\<not> fails E (length (trace s)) (Host AcquireGuard)"
    "\<not> fails E (Suc (length (trace s))) (Adb (RemovePortForward p))"
    "\<not> fails E (Suc (Suc (length (trace s)))) (Host ReleaseGuard)"
    by simp_all
  show "case tryCatch (releaseSystemPort E) h s of
      (Inl e, s') \<Rightarrow> False
    | (Inr a, s') \<Rightarrow> sameSession n0 s0 s' \<and> forwards s' p = None
        \<and> Adb (RemovePortForward p) \<in> set (drop n0 (trace s'))"
    using s n port by (simp add: action_defs port_defs sameSession_def)
qed

lemma teardown_removes_forward:
  assumes H: "\<forall>n\<ge>n0. \<forall>c. fails E n c \<longrightarrow>
      caughtInTeardown c \<and> c \<noteq> Adb (RemovePortForward p) \<and> c \<noteq> Host AcquireGuard
      \<and> c \<noteq> Host ReleaseGuard"
    and avd: "reboot (opts s0) \<longrightarrow> avd (opts s0) \<noteq> None"
    and port: "adb s0" "systemPort s0 = Some p" "p \<noteq> 0"
  shows "triple (sameSession n0 s0) (deleteSession E)
           (\<lambda>_ s. forwards s p = None \<and> Adb (RemovePortForward p) \<in> set (drop n0 (trace s)))
           (\<lambda>_ _. False)"
proof -
  have nofail: "fails E n c = False" if "n0 \<le> n" "\<not> caughtInTeardown c" for n c
    using H that by blast
  have noport: "\<not> fails E n (Adb (RemovePortForward p))
        \<and> \<not> fails E n (Host AcquireGuard) \<and> \<not> fails E n (Host ReleaseGuard)" if "n0 \<le> n" for n
    using H that by blast
  have avd': "avd (opts s0) = None \<longleftrightarrow> False" if "reboot (opts s0)"
    using avd that by blast
  note simps = sameSession_def nofail avd' port
  let ?J = "\<lambda>s. sameSession n0 s0 s \<and> forwards s p = None
      \<and> Adb (RemovePortForward p) \<in> set (drop n0 (trace s))"
  have block: "triple (sameSession n0 s0) (deleteSession E) (\<lambda>_. ?J) (\<lambda>_ _. False)"
    unfolding deleteSession_def screenRecordingStopTasks_def releaseMjpegServerPort_def
      adbRemovePortForward_def adbGetApiLevel_def list.map
    apply (rule triple_seqA_3 [where R = "sameSession n0 s0"])
    subgoal by (intro auto_rules) (auto simp: simps)
    apply (rule triple_seqA_Cons [where R = ?J])
    subgoal
      apply (rule triple_whenS)
       apply (rule triple_seqA_5 [where R = "sameSession n0 s0"])
      subgoal by (intro auto_rules) (auto simp: simps)
       apply (rule triple_seqA_Cons [where R = ?J])
      subgoal by (rule triple_pre, rule release_removes_forward [OF port noport]) auto
      subgoal by (intro auto_rules) (auto simp: simps)
      by (simp add: simps)
    by (intro auto_rules) (auto simp: simps)
  show ?thesis
    by (rule triple_weaken [OF block]) auto
qed



lemma install_failure_state:
  "provision installFails (newDriver noOpts) =
     (Inl (External (Server InstallServerApk)),
      (newDriver (noOpts\<lparr>autoLaunch := Some True\<rparr>))\<lparr>
        sessionId := Some ''session-1'', uiautomator2 := True, adb := True, systemPort := Some 8200,
        trace := [Driver BaseCreateSession, Helper GetDeviceInfoFromCaps, Helper CreateADB,
          Adb GetApiLevel, Adb SetHiddenApiPolicy, Helper GetLaunchInfo, Helper InitDevice,
          Host AcquireGuard, Host (FindAPortNotInUse 8200 8299), Host (CheckPortStatus 8200),
          Adb (ForwardPort 8200 6790), Host ReleaseGuard, Server NewServer, Server InstallServerApk],
        forwards := [8200 \<mapsto> 6790]\<rparr>)"
  by (simp add: run_defs noOpts_def newDriver_def quiet_def installFails_def)




text \<open>
  C1, as the code has it. When provisioning fails in a state in which the control port
  is leased (the bridge is attached, \<open>systemPort\<close> is set and forwarded), and from then
  on no call fails except calls that teardown makes inside a \<^verbatim>\<open>try\<close> block, other
  than the removal of this forward and its guard, then \<open>createSession\<close> runs the
  teardown, in which the bridge is asked to remove the forward, the forward is gone at
  the end, and the provisioning error is the error raised.
\<close>

theorem failed_start_releases_port:
  assumes "provision E s = (Inl e, s1)"
    and "adb s1" and "systemPort s1 = Some p" and "p \<noteq> 0" and "forwards s1 p = Some DEVICE_PORT"
    and "reboot (opts s1) \<longrightarrow> avd (opts s1) \<noteq> None"
    and "\<forall>n\<ge>length (trace s1). \<forall>c. fails E n c \<longrightarrow>
           caughtInTeardown c \<and> c \<noteq> Adb (RemovePortForward p) \<and> c \<noteq> Host AcquireGuard
           \<and> c \<noteq> Host ReleaseGuard"
  shows "fst (createSession E s) = Inl e
       \<and> forwards (snd (createSession E s)) p = None
       \<and> Adb (RemovePortForward p) \<in> set (drop (length (trace s1)) (trace (snd (createSession E s))))"
proof -
  have "sameSession (length (trace s1)) s1 s1"
    by (simp add: sameSession_def)
  from tripleD [OF teardown_removes_forward [OF assms(7) assms(6) assms(2) assms(3) assms(4)] this]
  obtain s2 where s2: "deleteSession E s1 = (Inr (), s2)" "forwards s2 p = None"
    "Adb (RemovePortForward p) \<in> set (drop (length (trace s1)) (trace s2))"
    by (cases "deleteSession E s1") (auto split: sum.splits)
  with assms(1) have "createSession E s = (Inl e, s2)"
    by (simp add: createSession_def tryCatch_def thenA_def bindA_def throw_def)
  with s2 show ?thesis
    by simp
qed

theorem failed_start_releases_port_witness:
  "fst (provision installFails (newDriver noOpts)) = Inl (External (Server InstallServerApk))
   \<and> forwards (snd (provision installFails (newDriver noOpts))) 8200 = Some DEVICE_PORT
   \<and> fst (createSession installFails (newDriver noOpts)) = Inl (External (Server InstallServerApk))
   \<and> forwards (snd (createSession installFails (newDriver noOpts))) 8200 = None"
proof -
  let ?s1 = "snd (provision installFails (newDriver noOpts))"
  have run: "provision installFails (newDriver noOpts) = (Inl (External (Server InstallServerApk)), ?s1)"
    by (simp add: install_failure_state)
  have lease: "adb ?s1" "systemPort ?s1 = Some 8200" "(8200::nat) \<noteq> 0"
    "forwards ?s1 8200 = Some DEVICE_PORT"
    "reboot (opts ?s1) \<longrightarrow> avd (opts ?s1) \<noteq> None"
    unfolding install_failure_state by (simp_all add: newDriver_def noOpts_def DEVICE_PORT_def)
  have later: "\<forall>n\<ge>length (trace ?s1). \<forall>c. fails installFails n c \<longrightarrow>
      caughtInTeardown c \<and> c \<noteq> Adb (RemovePortForward 8200) \<and> c \<noteq> Host AcquireGuard
      \<and> c \<noteq> Host ReleaseGuard"
    unfolding install_failure_state by (simp add: installFails_def quiet_def)
  have failed: "fst (provision installFails (newDriver noOpts)) = Inl (External (Server InstallServerApk))"
    by (simp add: install_failure_state)
  from failed_start_releases_port [OF run lease later] failed lease(4) show ?thesis
    by simp
qed

text \<open>
  C1 as stated fails: the installation of the server fails after port 8200 was
  forwarded, and in the teardown that follows the stop of the log capture fails too.
  \<open>createSession\<close> then raises the error of the teardown, not the provisioning error,
  and the forward of port 8200 outlives the failed start.
\<close>

theorem failed_start_leaks_port:
  "fst (provision installAndLogcatFail (newDriver noOpts)) = Inl (External (Server InstallServerApk))
   \<and> forwards (snd (provision installAndLogcatFail (newDriver noOpts))) 8200 = Some 6790
   \<and> fst (createSession installAndLogcatFail (newDriver noOpts)) = Inl (External (Adb StopLogcat))
   \<and> forwards (snd (createSession installAndLogcatFail (newDriver noOpts))) 8200 = Some 6790"
  by (simp add: run_defs noOpts_def newDriver_def quiet_def installAndLogcatFail_def)

end
